theory Spec2Isabelle
  imports Complex_Main "HOL-Library.AList"
begin

section \<open>The double-pendulum dynamics engine (app/physics/pendulum_physics.py)\<close>

text \<open>
  The engine is modelled by explicit state passing. Python numbers are modelled as
  \<^typ>\<open>real\<close> (exact arithmetic: rounding, overflow, infinities and NaN of the
  binary floating-point numbers are outside the model) and integer indices and
  identifiers as \<^typ>\<open>int\<close>. An exception is a value: a method that may raise
  returns \<open>Inl (e, s)\<close>, the exception together with the object as the partly
  executed method left it, or \<open>Inr s\<close> when it returns normally.
\<close>

datatype error = ZeroDivisionError | ValueError | OverflowError

subsection \<open>Arithmetic of the Python runtime used by the engine\<close>

text \<open>\<open>x % y\<close> on numbers: the remainder has the sign of the divisor.\<close>

definition py_mod :: "real \<Rightarrow> real \<Rightarrow> real" where
  "py_mod x y = x - y * of_int \<lfloor>x / y\<rfloor>"

text \<open>\<open>x / y\<close> raises ZeroDivisionError on a zero divisor.\<close>

definition py_div :: "real \<Rightarrow> real \<Rightarrow> error + real" where
  "py_div x y = (if y = 0 then Inl ZeroDivisionError else Inr (x / y))"

text \<open>\<open>int(x)\<close> truncates towards zero.\<close>

definition py_int :: "real \<Rightarrow> int" where
  "py_int x = (if 0 \<le> x then \<lfloor>x\<rfloor> else \<lceil>x\<rceil>)"


subsection \<open>collections.deque with a maximum length\<close>

record deque =
  items :: "(real \<times> real) list"
  maxlen :: nat

text \<open>\<open>deque(maxlen=n)\<close> converts \<open>n\<close> to a signed 64-bit size and raises
  OverflowError when it does not fit; it raises ValueError for a negative \<open>n\<close>.\<close>

definition deque_new :: "int \<Rightarrow> error + deque" where
  "deque_new n =
     (if n < - (2 ^ 63) \<or> 2 ^ 63 \<le> n then Inl OverflowError
      else if n < 0 then Inl ValueError
      else Inr \<lparr>items = [], maxlen = nat n\<rparr>)"

text \<open>\<open>append\<close> adds on the right and, when the deque is then too long, drops the
  leftmost element.\<close>

definition deque_append :: "real \<times> real \<Rightarrow> deque \<Rightarrow> deque" where
  "deque_append pt d =
     (let xs = items d @ [pt]
      in d\<lparr>items := (if maxlen d < length xs then tl xs else xs)\<rparr>)"


subsection \<open>PendulumParams\<close>

record PendulumParams =
  p_offset_x :: real
  p_offset_y :: real
  p_length1 :: real
  p_length2 :: real
  p_mass1 :: real
  p_mass2 :: real
  p_angle1 :: real
  p_angle2 :: real
  p_velocity1 :: real
  p_velocity2 :: real
  p_path_color :: "int \<times> int \<times> int"
  p_path_duration :: real
  p_show_wire :: bool

definition PendulumParams_clone :: "PendulumParams \<Rightarrow> PendulumParams" where
  "PendulumParams_clone p =
     \<lparr>p_offset_x = p_offset_x p, p_offset_y = p_offset_y p,
      p_length1 = p_length1 p, p_length2 = p_length2 p,
      p_mass1 = p_mass1 p, p_mass2 = p_mass2 p,
      p_angle1 = p_angle1 p, p_angle2 = p_angle2 p,
      p_velocity1 = p_velocity1 p, p_velocity2 = p_velocity2 p,
      p_path_color = p_path_color p, p_path_duration = p_path_duration p,
      p_show_wire = p_show_wire p\<rparr>"

subsection \<open>PathTracer\<close>

record PathTracer =
  points :: deque
  max_points :: int
  color :: "int \<times> int \<times> int"
  visible :: bool

text \<open>\<open>PathTracer()\<close> with its default arguments.\<close>

definition PathTracer_init :: PathTracer where
  "PathTracer_init =
     \<lparr>points = \<lparr>items = [], maxlen = 500\<rparr>, max_points = 500,
      color = (0, 128, 255), visible = True\<rparr>"

definition PathTracer_initialize ::
  "int \<Rightarrow> int \<times> int \<times> int \<Rightarrow> PathTracer \<Rightarrow> (error \<times> PathTracer) + PathTracer" where
  "PathTracer_initialize mp c t =
     (let t1 = t\<lparr>max_points := mp\<rparr>
      in case deque_new mp of
           Inl e \<Rightarrow> Inl (e, t1)
         | Inr d \<Rightarrow> Inr (t1\<lparr>points := d, color := c\<rparr>))"



text \<open>The loop of \<open>set_duration\<close> over \<open>enumerate(self.points)\<close>.\<close>

fun set_duration_loop :: "int \<Rightarrow> (nat \<times> (real \<times> real)) list \<Rightarrow> deque \<Rightarrow> deque" where
  "set_duration_loop mp [] new_points = new_points"
| "set_duration_loop mp ((i, point) # rest) new_points =
     set_duration_loop mp rest
       (if int i < mp then deque_append point new_points else new_points)"

definition PathTracer_set_duration ::
  "real \<Rightarrow> real \<Rightarrow> PathTracer \<Rightarrow> (error \<times> PathTracer) + PathTracer" where
  "PathTracer_set_duration seconds fps t =
     (let t1 = t\<lparr>max_points := py_int (seconds * fps)\<rparr>
      in case deque_new (max_points t1) of
           Inl e \<Rightarrow> Inl (e, t1)
         | Inr new_points \<Rightarrow>
             Inr (t1\<lparr>points :=
               set_duration_loop (max_points t1) (enumerate 0 (items (points t1))) new_points\<rparr>))"

subsection \<open>Pendulum\<close>

record Pendulum =
  pendulum_id :: int
  path_tracer :: PathTracer
  initial_state :: "PendulumParams option"
  offset_x :: real
  offset_y :: real
  length1 :: real
  length2 :: real
  mass1 :: real
  mass2 :: real
  angle1 :: real
  angle2 :: real
  velocity1 :: real
  velocity2 :: real
  acceleration1 :: real
  acceleration2 :: real
  x1 :: real
  y1 :: real
  x2 :: real
  y2 :: real
  show_wire :: bool
  dragging :: bool
  drag_joint :: int

text \<open>\<open>Pendulum(pendulum_id)\<close>.\<close>

definition Pendulum_init :: "int \<Rightarrow> Pendulum" where
  "Pendulum_init i =
     \<lparr>pendulum_id = i, path_tracer = PathTracer_init, initial_state = None,
      offset_x = 0, offset_y = 0, length1 = 120, length2 = 120, mass1 = 10, mass2 = 10,
      angle1 = pi / 4, angle2 = pi / 4, velocity1 = 0, velocity2 = 0,
      acceleration1 = 0, acceleration2 = 0, x1 = 0, y1 = 0, x2 = 0, y2 = 0,
      show_wire = True, dragging = False, drag_joint = 0\<rparr>"

definition calculate_cartesian_positions :: "Pendulum \<Rightarrow> Pendulum" where
  "calculate_cartesian_positions s =
     (let s1 = s\<lparr>x1 := length1 s * sin (angle1 s)\<rparr>;
          s2 = s1\<lparr>y1 := length1 s1 * cos (angle1 s1)\<rparr>;
          s3 = s2\<lparr>x2 := x1 s2 + length2 s2 * sin (angle2 s2)\<rparr>
      in s3\<lparr>y2 := y1 s3 + length2 s3 * cos (angle2 s3)\<rparr>)"

definition Pendulum_initialize ::
  "PendulumParams \<Rightarrow> Pendulum \<Rightarrow> (error \<times> Pendulum) + Pendulum" where
  "Pendulum_initialize params s =
     (let s1 = s\<lparr>initial_state := Some (PendulumParams_clone params),
                 offset_x := p_offset_x params, offset_y := p_offset_y params,
                 length1 := p_length1 params, length2 := p_length2 params,
                 mass1 := p_mass1 params, mass2 := p_mass2 params,
                 angle1 := p_angle1 params, angle2 := p_angle2 params,
                 velocity1 := p_velocity1 params, velocity2 := p_velocity2 params,
                 show_wire := p_show_wire params\<rparr>;
          fps = 60;
          mp = py_int (p_path_duration params * fps)
      in case PathTracer_initialize mp (p_path_color params) (path_tracer s1) of
           Inl (e, t) \<Rightarrow> Inl (e, s1\<lparr>path_tracer := t\<rparr>)
         | Inr t \<Rightarrow> Inr (calculate_cartesian_positions (s1\<lparr>path_tracer := t\<rparr>)))"

definition calculate_acceleration1 :: "real \<Rightarrow> Pendulum \<Rightarrow> error + real" where
  "calculate_acceleration1 gravity s =
     (let g = gravity; m1 = mass1 s; m2 = mass2 s; l1 = length1 s; l2 = length2 s;
          a1 = angle1 s; a2 = angle2 s; v1 = velocity1 s; v2 = velocity2 s;
          num1 = - g * (2 * m1 + m2) * sin a1;
          num2 = - m2 * g * sin (a1 - 2 * a2);
          num3 = - 2 * sin (a1 - a2) * m2 * (v2 ^ 2 * l2 + v1 ^ 2 * l1 * cos (a1 - a2));
          den = l1 * (2 * m1 + m2 - m2 * cos (2 * a1 - 2 * a2))
      in py_div (num1 + num2 + num3) den)"

definition calculate_acceleration2 :: "real \<Rightarrow> Pendulum \<Rightarrow> error + real" where
  "calculate_acceleration2 gravity s =
     (let g = gravity; m1 = mass1 s; m2 = mass2 s; l1 = length1 s; l2 = length2 s;
          a1 = angle1 s; a2 = angle2 s; v1 = velocity1 s; v2 = velocity2 s;
          num1 = 2 * sin (a1 - a2);
          num2 = v1 ^ 2 * l1 * (m1 + m2) + g * (m1 + m2) * cos a1;
          num3 = v2 ^ 2 * l2 * m2 * cos (a1 - a2);
          den = l2 * (2 * m1 + m2 - m2 * cos (2 * a1 - 2 * a2))
      in py_div (num1 * (num2 + num3)) den)"

definition velocity_verlet_step ::
  "real \<Rightarrow> real \<Rightarrow> Pendulum \<Rightarrow> (error \<times> Pendulum) + Pendulum" where
  "velocity_verlet_step dt gravity s =
     (case calculate_acceleration1 gravity s of
        Inl e \<Rightarrow> Inl (e, s)
      | Inr accel1_old \<Rightarrow>
     (case calculate_acceleration2 gravity s of
        Inl e \<Rightarrow> Inl (e, s)
      | Inr accel2_old \<Rightarrow>
     (let s1 = s\<lparr>velocity1 := velocity1 s + 0.5 * accel1_old * dt\<rparr>;
          s2 = s1\<lparr>velocity2 := velocity2 s1 + 0.5 * accel2_old * dt\<rparr>;
          s3 = s2\<lparr>angle1 := angle1 s2 + velocity1 s2 * dt\<rparr>;
          s4 = s3\<lparr>angle2 := angle2 s3 + velocity2 s3 * dt\<rparr>;
          s5 = s4\<lparr>angle1 := py_mod (angle1 s4 + pi) (2 * pi) - pi\<rparr>;
          s6 = s5\<lparr>angle2 := py_mod (angle2 s5 + pi) (2 * pi) - pi\<rparr>
      in case calculate_acceleration1 gravity s6 of
           Inl e \<Rightarrow> Inl (e, s6)
         | Inr accel1_new \<Rightarrow>
        (case calculate_acceleration2 gravity s6 of
           Inl e \<Rightarrow> Inl (e, s6)
         | Inr accel2_new \<Rightarrow>
        (let s7 = s6\<lparr>velocity1 := velocity1 s6 + 0.5 * accel1_new * dt\<rparr>
         in Inr (s7\<lparr>velocity2 := velocity2 s7 + 0.5 * accel2_new * dt\<rparr>))))))"

definition Pendulum_update ::
  "real \<Rightarrow> real \<Rightarrow> Pendulum \<Rightarrow> (error \<times> Pendulum) + Pendulum" where
  "Pendulum_update dt gravity s =
     (if dragging s then Inr s
      else case velocity_verlet_step dt gravity s of
             Inl r \<Rightarrow> Inl r
           | Inr s1 \<Rightarrow> Inr (calculate_cartesian_positions s1))"


definition Pendulum_set_length :: "int \<Rightarrow> real \<Rightarrow> Pendulum \<Rightarrow> Pendulum" where
  "Pendulum_set_length rod v s =
     calculate_cartesian_positions
       (if rod = 1 then s\<lparr>length1 := v\<rparr> else s\<lparr>length2 := v\<rparr>)"

definition Pendulum_set_mass :: "int \<Rightarrow> real \<Rightarrow> Pendulum \<Rightarrow> Pendulum" where
  "Pendulum_set_mass bob v s = (if bob = 1 then s\<lparr>mass1 := v\<rparr> else s\<lparr>mass2 := v\<rparr>)"

definition Pendulum_set_angle :: "int \<Rightarrow> real \<Rightarrow> Pendulum \<Rightarrow> Pendulum" where
  "Pendulum_set_angle joint v s =
     calculate_cartesian_positions
       (if joint = 1 then s\<lparr>angle1 := v\<rparr> else s\<lparr>angle2 := v\<rparr>)"

definition Pendulum_set_velocity :: "int \<Rightarrow> real \<Rightarrow> Pendulum \<Rightarrow> Pendulum" where
  "Pendulum_set_velocity joint v s =
     (if joint = 1 then s\<lparr>velocity1 := v\<rparr> else s\<lparr>velocity2 := v\<rparr>)"


definition Pendulum_start_drag ::
  "real \<times> real \<Rightarrow> real \<times> real \<Rightarrow> Pendulum \<Rightarrow> bool \<times> Pendulum" where
  "Pendulum_start_drag position screen_center s =
     (let anchor_x = fst screen_center + offset_x s;
          anchor_y = snd screen_center + offset_y s;
          screen_x1 = anchor_x + x1 s;
          screen_y1 = anchor_y + y1 s;
          screen_x2 = anchor_x + x2 s;
          screen_y2 = anchor_y + y2 s;
          dx2 = fst position - screen_x2;
          dy2 = snd position - screen_y2;
          dist2 = sqrt (dx2 * dx2 + dy2 * dy2)
      in if dist2 \<le> max 10 (mass2 s) then (True, s\<lparr>dragging := True, drag_joint := 2\<rparr>)
         else
           (let dx1 = fst position - screen_x1;
                dy1 = snd position - screen_y1;
                dist1 = sqrt (dx1 * dx1 + dy1 * dy1)
            in if dist1 \<le> max 10 (mass1 s) then (True, s\<lparr>dragging := True, drag_joint := 1\<rparr>)
               else (False, s)))"



text \<open>\<open>calculate_energy\<close> assigns no attribute of the pendulum; the model returns the
  result together with the pendulum it was called on.\<close>

definition Pendulum_calculate_energy ::
  "real \<Rightarrow> Pendulum \<Rightarrow> (real \<times> real \<times> real) \<times> Pendulum" where
  "Pendulum_calculate_energy gravity s =
     (let g = gravity; m1 = mass1 s; m2 = mass2 s; l1 = length1 s; l2 = length2 s;
          a1 = angle1 s; a2 = angle2 s; v1 = velocity1 s; v2 = velocity2 s;
          x1 = l1 * sin a1;
          y1 = - l1 * cos a1;
          x2 = x1 + l2 * sin a2;
          y2 = y1 - l2 * cos a2;
          vx1 = l1 * v1 * cos a1;
          vy1 = l1 * v1 * sin a1;
          vx2 = vx1 + l2 * v2 * cos a2;
          vy2 = vy1 + l2 * v2 * sin a2;
          ke1 = 0.5 * m1 * (vx1 ^ 2 + vy1 ^ 2);
          ke2 = 0.5 * m2 * (vx2 ^ 2 + vy2 ^ 2);
          kinetic_energy = ke1 + ke2;
          pe1 = m1 * g * (y1 + l1);
          pe2 = m2 * g * (y2 + l1 + l2);
          potential_energy = pe1 + pe2;
          total_energy = kinetic_energy + potential_energy
      in ((kinetic_energy, potential_energy, total_energy), s))"

subsection \<open>Sequences of mutations of one pendulum\<close>


definition state_after :: "(error \<times> 'a) + 'a \<Rightarrow> 'a" where
  "state_after r = (case r of Inl (e, s) \<Rightarrow> s | Inr s \<Rightarrow> s)"



subsection \<open>PendulumSystem\<close>

text \<open>
  The system holds references to its pendulum objects: the dictionary and
  \<open>selected_pendulum\<close> may name the same object, and \<open>update\<close> changes the objects in
  place. The objects live in \<open>heap\<close>, a reference is an index into it, and a new object
  is put at its end. The dictionary is an association list in insertion order.
\<close>

record PendulumSystem =
  heap :: "Pendulum list"
  pendulums :: "(int \<times> nat) list"
  selected_pendulum :: "nat option"
  next_pendulum_id :: int

definition PendulumSystem_init :: PendulumSystem where
  "PendulumSystem_init =
     \<lparr>heap = [], pendulums = [], selected_pendulum = None, next_pendulum_id = 0\<rparr>"

definition PendulumSystem_initialize :: "PendulumSystem \<Rightarrow> PendulumSystem" where
  "PendulumSystem_initialize sys =
     sys\<lparr>pendulums := [], selected_pendulum := None, next_pendulum_id := 0\<rparr>"

text \<open>The loop of \<open>update\<close> over \<open>self.pendulums.values()\<close>; an exception of a
  pendulum's \<open>update\<close> ends it.\<close>

fun update_loop ::
  "real \<Rightarrow> real \<Rightarrow> nat list \<Rightarrow> PendulumSystem \<Rightarrow> (error \<times> PendulumSystem) + PendulumSystem" where
  "update_loop dt gravity [] sys = Inr sys"
| "update_loop dt gravity (r # rs) sys =
     (case Pendulum_update dt gravity (heap sys ! r) of
        Inl (e, pendulum) \<Rightarrow> Inl (e, sys\<lparr>heap := (heap sys)[r := pendulum]\<rparr>)
      | Inr pendulum \<Rightarrow> update_loop dt gravity rs (sys\<lparr>heap := (heap sys)[r := pendulum]\<rparr>))"

definition PendulumSystem_update ::
  "real \<Rightarrow> real \<Rightarrow> PendulumSystem \<Rightarrow> (error \<times> PendulumSystem) + PendulumSystem" where
  "PendulumSystem_update dt gravity sys = update_loop dt gravity (map snd (pendulums sys)) sys"

definition PendulumSystem_create_pendulum ::
  "PendulumParams \<Rightarrow> PendulumSystem \<Rightarrow> (error \<times> PendulumSystem) + (nat \<times> PendulumSystem)" where
  "PendulumSystem_create_pendulum params sys =
     (let pid = next_pendulum_id sys;
          sys1 = sys\<lparr>next_pendulum_id := next_pendulum_id sys + 1\<rparr>;
          r = length (heap sys1)
      in case Pendulum_initialize params (Pendulum_init pid) of
           Inl (e, pendulum) \<Rightarrow> Inl (e, sys1\<lparr>heap := heap sys1 @ [pendulum]\<rparr>)
         | Inr pendulum \<Rightarrow>
             Inr (r, sys1\<lparr>heap := heap sys1 @ [pendulum],
                          pendulums := AList.update pid r (pendulums sys1),
                          selected_pendulum := Some r\<rparr>))"

definition PendulumSystem_remove_pendulum ::
  "int \<Rightarrow> PendulumSystem \<Rightarrow> bool \<times> PendulumSystem" where
  "PendulumSystem_remove_pendulum pid sys =
     (if pid \<in> fst ` set (pendulums sys) then
        (let sys1 =
               (case selected_pendulum sys of
                  None \<Rightarrow> sys
                | Some r \<Rightarrow>
                    if pendulum_id (heap sys ! r) = pid then sys\<lparr>selected_pendulum := None\<rparr>
                    else sys)
         in (True, sys1\<lparr>pendulums := AList.delete pid (pendulums sys1)\<rparr>))
      else (False, sys))"

definition PendulumSystem_select_pendulum ::
  "int \<Rightarrow> PendulumSystem \<Rightarrow> nat option \<times> PendulumSystem" where
  "PendulumSystem_select_pendulum pid sys =
     (case map_of (pendulums sys) pid of
        Some r \<Rightarrow> (Some r, sys\<lparr>selected_pendulum := Some r\<rparr>)
      | None \<Rightarrow> (None, sys))"

definition PendulumSystem_get_pendulum_by_id ::
  "int \<Rightarrow> PendulumSystem \<Rightarrow> nat option \<times> PendulumSystem" where
  "PendulumSystem_get_pendulum_by_id pid sys = (map_of (pendulums sys) pid, sys)"

definition PendulumSystem_get_selected_pendulum ::
  "PendulumSystem \<Rightarrow> nat option \<times> PendulumSystem" where
  "PendulumSystem_get_selected_pendulum sys = (selected_pendulum sys, sys)"

definition PendulumSystem_get_pendulum_count :: "PendulumSystem \<Rightarrow> nat \<times> PendulumSystem" where
  "PendulumSystem_get_pendulum_count sys = (length (pendulums sys), sys)"

definition PendulumSystem_clear :: "PendulumSystem \<Rightarrow> PendulumSystem" where
  "PendulumSystem_clear sys = sys\<lparr>pendulums := [], selected_pendulum := None\<rparr>"

text \<open>The loop of \<open>try_select_pendulum_at_position\<close> over \<open>self.pendulums.values()\<close>.\<close>

fun try_select_loop ::
  "real \<times> real \<Rightarrow> real \<times> real \<Rightarrow> nat list \<Rightarrow> PendulumSystem \<Rightarrow> nat option \<times> PendulumSystem" where
  "try_select_loop position screen_center [] sys = (None, sys)"
| "try_select_loop position screen_center (r # rs) sys =
     (let pendulum = heap sys ! r;
          anchor_x = fst screen_center + offset_x pendulum;
          anchor_y = snd screen_center + offset_y pendulum;
          screen_x1 = anchor_x + x1 pendulum;
          screen_y1 = anchor_y + y1 pendulum;
          screen_x2 = anchor_x + x2 pendulum;
          screen_y2 = anchor_y + y2 pendulum;
          dx2 = fst position - screen_x2;
          dy2 = snd position - screen_y2;
          dist2 = sqrt (dx2 * dx2 + dy2 * dy2)
      in if dist2 \<le> max 10 (mass2 pendulum) then (Some r, sys\<lparr>selected_pendulum := Some r\<rparr>)
         else
           (let dx1 = fst position - screen_x1;
                dy1 = snd position - screen_y1;
                dist1 = sqrt (dx1 * dx1 + dy1 * dy1)
            in if dist1 \<le> max 10 (mass1 pendulum)
               then (Some r, sys\<lparr>selected_pendulum := Some r\<rparr>)
               else try_select_loop position screen_center rs sys))"

definition PendulumSystem_try_select_pendulum_at_position ::
  "real \<times> real \<Rightarrow> real \<times> real \<Rightarrow> PendulumSystem \<Rightarrow> nat option \<times> PendulumSystem" where
  "PendulumSystem_try_select_pendulum_at_position position screen_center sys =
     try_select_loop position screen_center (map snd (pendulums sys)) sys"

text \<open>The operations of the system, and the system each of them leaves behind
  (also when it raises).\<close>

datatype operation =
    Initialize
  | UpdateAll real real
  | CreatePendulum PendulumParams
  | RemovePendulum int
  | SelectPendulum int
  | GetPendulumById int
  | GetSelectedPendulum
  | GetPendulumCount
  | Clear
  | TrySelectAt "real \<times> real" "real \<times> real"

fun perform :: "operation \<Rightarrow> PendulumSystem \<Rightarrow> PendulumSystem" where
  "perform Initialize sys = PendulumSystem_initialize sys"
| "perform (UpdateAll dt gravity) sys = state_after (PendulumSystem_update dt gravity sys)"
| "perform (CreatePendulum params) sys =
     (case PendulumSystem_create_pendulum params sys of
        Inl (e, sys1) \<Rightarrow> sys1
      | Inr (r, sys1) \<Rightarrow> sys1)"
| "perform (RemovePendulum pid) sys = snd (PendulumSystem_remove_pendulum pid sys)"
| "perform (SelectPendulum pid) sys = snd (PendulumSystem_select_pendulum pid sys)"
| "perform (GetPendulumById pid) sys = snd (PendulumSystem_get_pendulum_by_id pid sys)"
| "perform GetSelectedPendulum sys = snd (PendulumSystem_get_selected_pendulum sys)"
| "perform GetPendulumCount sys = snd (PendulumSystem_get_pendulum_count sys)"
| "perform Clear sys = PendulumSystem_clear sys"
| "perform (TrySelectAt position screen_center) sys =
     snd (PendulumSystem_try_select_pendulum_at_position position screen_center sys)"

text \<open>The selected pendulum, when there is one, is a value of the dictionary.\<close>

definition selection_live :: "PendulumSystem \<Rightarrow> bool" where
  "selection_live sys =
     (case selected_pendulum sys of
        None \<Rightarrow> True
      | Some r \<Rightarrow> r \<in> snd ` set (pendulums sys))"

text \<open>What the operations maintain besides: the dictionary has each key once, and every
  entry refers to an object of the heap whose \<open>id\<close> is the entry's key.\<close>

definition system_ok :: "PendulumSystem \<Rightarrow> bool" where
  "system_ok sys \<longleftrightarrow>
     distinct (map fst (pendulums sys)) \<and>
     (\<forall>(k, r) \<in> set (pendulums sys). r < length (heap sys) \<and> pendulum_id (heap sys ! r) = k) \<and>
     selection_live sys"

subsection \<open>The integration scheme and the energy as the specification words them\<close>

definition spec_accel1 :: "real \<Rightarrow> Pendulum \<Rightarrow> real" where
  "spec_accel1 g s =
     (- g * (2 * mass1 s + mass2 s) * sin (angle1 s)
      - mass2 s * g * sin (angle1 s - 2 * angle2 s)
      - 2 * sin (angle1 s - angle2 s) * mass2 s *
          ((velocity2 s)\<^sup>2 * length2 s + (velocity1 s)\<^sup>2 * length1 s * cos (angle1 s - angle2 s)))
     / (length1 s * (2 * mass1 s + mass2 s - mass2 s * cos (2 * angle1 s - 2 * angle2 s)))"

definition spec_accel2 :: "real \<Rightarrow> Pendulum \<Rightarrow> real" where
  "spec_accel2 g s =
     2 * sin (angle1 s - angle2 s) *
       ((velocity1 s)\<^sup>2 * length1 s * (mass1 s + mass2 s)
        + g * (mass1 s + mass2 s) * cos (angle1 s)
        + (velocity2 s)\<^sup>2 * length2 s * mass2 s * cos (angle1 s - angle2 s))
     / (length2 s * (2 * mass1 s + mass2 s - mass2 s * cos (2 * angle1 s - 2 * angle2 s)))"

text \<open>Both quotients are defined: neither divisor is zero.\<close>

definition spec_accel_defined :: "Pendulum \<Rightarrow> bool" where
  "spec_accel_defined s \<longleftrightarrow>
     length1 s * (2 * mass1 s + mass2 s - mass2 s * cos (2 * angle1 s - 2 * angle2 s)) \<noteq> 0 \<and>
     length2 s * (2 * mass1 s + mass2 s - mass2 s * cos (2 * angle1 s - 2 * angle2 s)) \<noteq> 0"

text \<open>Steps 1 to 3: the velocities after the half step, the angles after the full step
  and the normalisation.\<close>

definition spec_half_step :: "real \<Rightarrow> real \<Rightarrow> Pendulum \<Rightarrow> Pendulum" where
  "spec_half_step dt g s =
     (let v1 = velocity1 s + 0.5 * spec_accel1 g s * dt;
          v2 = velocity2 s + 0.5 * spec_accel2 g s * dt
      in s\<lparr>velocity1 := v1, velocity2 := v2,
           angle1 := py_mod (angle1 s + v1 * dt + pi) (2 * pi) - pi,
           angle2 := py_mod (angle2 s + v2 * dt + pi) (2 * pi) - pi\<rparr>)"

text \<open>Steps 4 and 5, and the Cartesian offsets from the new angles and the lengths.\<close>

definition spec_step :: "real \<Rightarrow> real \<Rightarrow> Pendulum \<Rightarrow> Pendulum" where
  "spec_step dt g s =
     (let h = spec_half_step dt g s
      in h\<lparr>velocity1 := velocity1 h + 0.5 * spec_accel1 g h * dt,
           velocity2 := velocity2 h + 0.5 * spec_accel2 g h * dt,
           x1 := length1 h * sin (angle1 h),
           y1 := length1 h * cos (angle1 h),
           x2 := length1 h * sin (angle1 h) + length2 h * sin (angle2 h),
           y2 := length1 h * cos (angle1 h) + length2 h * cos (angle2 h)\<rparr>)"

definition spec_energy :: "real \<Rightarrow> Pendulum \<Rightarrow> real \<times> real \<times> real" where
  "spec_energy g s =
     (let y1 = - length1 s * cos (angle1 s);
          y2 = y1 - length2 s * cos (angle2 s);
          vx1 = length1 s * velocity1 s * cos (angle1 s);
          vy1 = length1 s * velocity1 s * sin (angle1 s);
          vx2 = vx1 + length2 s * velocity2 s * cos (angle2 s);
          vy2 = vy1 + length2 s * velocity2 s * sin (angle2 s);
          kinetic = 0.5 * mass1 s * (vx1\<^sup>2 + vy1\<^sup>2) + 0.5 * mass2 s * (vx2\<^sup>2 + vy2\<^sup>2);
          potential = mass1 s * g * (y1 + length1 s) + mass2 s * g * (y2 + length1 s + length2 s)
      in (kinetic, potential, kinetic + potential))"

subsection \<open>Distances of the hit test, systems reached by operations, and example values\<close>

text \<open>The distance from the pointer to the screen position of a bob: the anchor
  (screen centre plus the pendulum's offset) plus the bob's Cartesian offset.\<close>

definition bob1_distance :: "real \<times> real \<Rightarrow> real \<times> real \<Rightarrow> Pendulum \<Rightarrow> real" where
  "bob1_distance position screen_center s =
     sqrt ((fst position - (fst screen_center + offset_x s + x1 s))\<^sup>2
         + (snd position - (snd screen_center + offset_y s + y1 s))\<^sup>2)"

definition bob2_distance :: "real \<times> real \<Rightarrow> real \<times> real \<Rightarrow> Pendulum \<Rightarrow> real" where
  "bob2_distance position screen_center s =
     sqrt ((fst position - (fst screen_center + offset_x s + x2 s))\<^sup>2
         + (snd position - (snd screen_center + offset_y s + y2 s))\<^sup>2)"

fun perform_all :: "operation list \<Rightarrow> PendulumSystem \<Rightarrow> PendulumSystem" where
  "perform_all [] sys = sys"
| "perform_all (operation # rest) sys = perform_all rest (perform operation sys)"

definition example_params :: PendulumParams where
  "example_params =
     \<lparr>p_offset_x = 0, p_offset_y = 0, p_length1 = 120, p_length2 = 120,
      p_mass1 = 10, p_mass2 = 10, p_angle1 = 0, p_angle2 = 0,
      p_velocity1 = 0, p_velocity2 = 0, p_path_color = (0, 128, 255),
      p_path_duration = 2, p_show_wire = True\<rparr>"

definition example_body :: Pendulum where
  "example_body = state_after (Pendulum_initialize example_params (Pendulum_init 0))"

definition example_short :: Pendulum where
  "example_short = Pendulum_set_length 2 5 example_body"

definition example_system :: PendulumSystem where
  "example_system =
     \<lparr>heap = [example_body], pendulums = [(0, 0)], selected_pendulum = Some 0,
      next_pendulum_id = 1\<rparr>"

text \<open>A pendulum with both rods horizontal, one whose first rod has length zero (as
  \<open>set_length(1, 0)\<close> leaves it), and one with a massless first bob whose rods fold
  onto each other in one step of size 1.\<close>

definition example_horizontal :: Pendulum where
  "example_horizontal = (Pendulum_init 0)\<lparr>angle1 := pi / 2, angle2 := pi / 2\<rparr>"

definition example_zero_length :: Pendulum where
  "example_zero_length = Pendulum_set_length 1 0 (Pendulum_init 0)"

definition example_massless :: Pendulum where
  "example_massless =
     (Pendulum_init 0)\<lparr>length1 := pi, length2 := 8, mass1 := 0, mass2 := 10,
                        angle1 := pi / 2, angle2 := 0, velocity1 := 0, velocity2 := pi / 4\<rparr>"

definition ten_samples :: "(real \<times> real) list" where
  "ten_samples = [(0, 0), (1, 1), (2, 2), (3, 3), (4, 4), (5, 5), (6, 6), (7, 7), (8, 8), (9, 9)]"

definition example_trace :: PathTracer where
  "example_trace = PathTracer_init\<lparr>points := \<lparr>items = ten_samples, maxlen = 500\<rparr>\<rparr>"

section \<open>Setters\<close>

lemmas setter_defs = Pendulum_set_length_def Pendulum_set_mass_def Pendulum_set_angle_def
  Pendulum_set_velocity_def calculate_cartesian_positions_def

text \<open>
  Claim C10. For every index \<open>j\<close> other than 1 (0, 3 and negative numbers included) the
  setters take \<open>j\<close> for the second element: \<open>set_length(j, v)\<close> overwrites
  \<open>length2\<close>, \<open>set_mass(j, v)\<close> overwrites \<open>mass2\<close>, \<open>set_angle(j, v)\<close> overwrites
  \<open>angle2\<close> and \<open>set_velocity(j, v)\<close> overwrites \<open>velocity2\<close>. No setter has a
  failing branch, so no index is rejected.
\<close>

theorem setters_other_index_is_second:
  "j \<noteq> 1 \<Longrightarrow>
     Pendulum_set_length j v s = calculate_cartesian_positions (s\<lparr>length2 := v\<rparr>) \<and>
     length2 (Pendulum_set_length j v s) = v \<and> length1 (Pendulum_set_length j v s) = length1 s \<and>
     Pendulum_set_mass j v s = s\<lparr>mass2 := v\<rparr> \<and>
     Pendulum_set_angle j v s = calculate_cartesian_positions (s\<lparr>angle2 := v\<rparr>) \<and>
     angle2 (Pendulum_set_angle j v s) = v \<and> angle1 (Pendulum_set_angle j v s) = angle1 s \<and>
     Pendulum_set_velocity j v s = s\<lparr>velocity2 := v\<rparr>"
  by (simp add: setter_defs Let_def)

theorem setters_other_index_is_second_witness:
  "(0::int) \<noteq> 1 \<and> (3::int) \<noteq> 1 \<and> (-2::int) \<noteq> 1 \<and>
   length2 (Pendulum_set_length 0 50 (Pendulum_init 7)) = 50 \<and>
   length1 (Pendulum_set_length 0 50 (Pendulum_init 7)) = length1 (Pendulum_init 7) \<and>
   Pendulum_set_mass 3 4 (Pendulum_init 7) = (Pendulum_init 7)\<lparr>mass2 := 4\<rparr> \<and>
   angle2 (Pendulum_set_angle (-2) 1 (Pendulum_init 7)) = 1 \<and>
   Pendulum_set_velocity 0 2 (Pendulum_init 7) = (Pendulum_init 7)\<lparr>velocity2 := 2\<rparr>"
proof -
  have n0: "(0::int) \<noteq> 1" and n3: "(3::int) \<noteq> 1" and n2: "(-2::int) \<noteq> 1"
    by simp_all
  show ?thesis
    using n0 n3 n2
      setters_other_index_is_second [OF n0, of 50 "Pendulum_init 7"]
      setters_other_index_is_second [OF n3, of 4 "Pendulum_init 7"]
      setters_other_index_is_second [OF n2, of 1 "Pendulum_init 7"]
      setters_other_index_is_second [OF n0, of 2 "Pendulum_init 7"]
    by blast
qed

text \<open>
  Claim C3 says that \<open>set_length\<close> and \<open>set_mass\<close> reject a value \<open>v \<le> 0\<close>, keep the
  prior value and signal InvalidParameter. The setters have no check: on a new pendulum
  (lengths 120, masses 10) \<open>set_length(1, -5)\<close> leaves \<open>length1 = -5\<close> and
  \<open>set_mass(2, 0)\<close> leaves \<open>mass2 = 0\<close>.
\<close>

theorem setters_reject_nonpositive_counterexample:
  "(-5::real) \<le> 0 \<and> length1 (Pendulum_init 0) = 120 \<and>
   length1 (Pendulum_set_length 1 (-5) (Pendulum_init 0)) = -5 \<and>
   (0::real) \<le> 0 \<and> mass2 (Pendulum_init 0) = 10 \<and>
   mass2 (Pendulum_set_mass 2 0 (Pendulum_init 0)) = 0"
  by (simp add: setter_defs Let_def Pendulum_init_def)

text \<open>
  Claim C3, amended. For every value \<open>v \<le> 0\<close>, \<open>set_length\<close> and \<open>set_mass\<close> store
  \<open>v\<close> as the length or mass they name, as they do for any other value;
  \<open>set_length\<close> recomputes the Cartesian offsets from it. Neither has a failing branch:
  nothing is signalled.
\<close>

theorem setters_store_nonpositive:
  "v \<le> 0 \<Longrightarrow>
     length1 (Pendulum_set_length 1 v s) = v \<and> length2 (Pendulum_set_length 2 v s) = v \<and>
     mass1 (Pendulum_set_mass 1 v s) = v \<and> mass2 (Pendulum_set_mass 2 v s) = v \<and>
     x1 (Pendulum_set_length 1 v s) = v * sin (angle1 s) \<and>
     y1 (Pendulum_set_length 1 v s) = v * cos (angle1 s)"
  by (simp add: setter_defs Let_def)

theorem setters_store_nonpositive_witness:
  "(-5::real) \<le> 0 \<and>
   length1 (Pendulum_set_length 1 (-5) (Pendulum_init 0)) = -5 \<and>
   length2 (Pendulum_set_length 2 (-5) (Pendulum_init 0)) = -5 \<and>
   mass1 (Pendulum_set_mass 1 (-5) (Pendulum_init 0)) = -5 \<and>
   mass2 (Pendulum_set_mass 2 (-5) (Pendulum_init 0)) = -5"
  using setters_store_nonpositive [of "-5" "Pendulum_init 0"] by simp

section \<open>The integration step\<close>

text \<open>
  Claim C4. While the pendulum is dragged, \<open>update(dt, gravity)\<close> returns the pendulum
  as it was, for every \<open>dt\<close> and \<open>gravity\<close>: angles, velocities, Cartesian offsets,
  lengths, masses and the path trace are all unchanged.
\<close>

theorem update_while_dragging_is_noop:
  "dragging s \<Longrightarrow> Pendulum_update dt gravity s = Inr s"
  by (simp add: Pendulum_update_def)

theorem update_while_dragging_is_noop_witness:
  "dragging ((Pendulum_init 0)\<lparr>dragging := True\<rparr>) \<and>
   Pendulum_update (1/100) (981/100) ((Pendulum_init 0)\<lparr>dragging := True\<rparr>)
     = Inr ((Pendulum_init 0)\<lparr>dragging := True\<rparr>)"
  using update_while_dragging_is_noop [of "(Pendulum_init 0)\<lparr>dragging := True\<rparr>" "1/100" "981/100"]
  by simp

lemma acceleration1_defined:
  "spec_accel_defined s \<Longrightarrow> calculate_acceleration1 g s = Inr (spec_accel1 g s)"
  by (simp add: calculate_acceleration1_def spec_accel1_def spec_accel_defined_def py_div_def
      Let_def)

lemma acceleration2_defined:
  "spec_accel_defined s \<Longrightarrow> calculate_acceleration2 g s = Inr (spec_accel2 g s)"
  by (simp add: calculate_acceleration2_def spec_accel2_def spec_accel_defined_def py_div_def
      Let_def)

lemma verlet_step_defined:
  assumes "spec_accel_defined s" and "spec_accel_defined (spec_half_step dt g s)"
  shows "velocity_verlet_step dt g s =
           Inr ((spec_half_step dt g s)
                  \<lparr>velocity1 := velocity1 (spec_half_step dt g s)
                                 + 0.5 * spec_accel1 g (spec_half_step dt g s) * dt,
                   velocity2 := velocity2 (spec_half_step dt g s)
                                 + 0.5 * spec_accel2 g (spec_half_step dt g s) * dt\<rparr>)"
  using assms
  by (simp add: velocity_verlet_step_def acceleration1_defined acceleration2_defined
      Let_def spec_half_step_def)

text \<open>A zero divisor in the accelerations of the current state: \<open>update\<close> raises
  ZeroDivisionError and the pendulum is unchanged.\<close>

lemma update_undefined_raises:
  assumes "\<not> dragging s" and "\<not> spec_accel_defined s"
  shows "Pendulum_update dt g s = Inl (ZeroDivisionError, s)"
proof (cases "calculate_acceleration1 g s")
  case (Inl e)
  then have "e = ZeroDivisionError"
    by (simp add: calculate_acceleration1_def py_div_def Let_def split: if_splits)
  with Inl assms(1) show ?thesis
    by (simp add: Pendulum_update_def velocity_verlet_step_def)
next
  case (Inr a)
  then have "length1 s * (2 * mass1 s + mass2 s - mass2 s * cos (2 * angle1 s - 2 * angle2 s)) \<noteq> 0"
    by (simp add: calculate_acceleration1_def py_div_def Let_def split: if_splits)
  with assms(2)
  have "length2 s * (2 * mass1 s + mass2 s - mass2 s * cos (2 * angle1 s - 2 * angle2 s)) = 0"
    by (simp only: spec_accel_defined_def simp_thms)
  then have "calculate_acceleration2 g s = Inl ZeroDivisionError"
    by (simp only: calculate_acceleration2_def py_div_def Let_def refl if_True)
  with Inr assms(1) show ?thesis
    by (simp add: Pendulum_update_def velocity_verlet_step_def)
qed

lemma update_defined_returns:
  assumes "\<not> dragging s"
    and "spec_accel_defined s"
    and "spec_accel_defined (spec_half_step dt g s)"
  shows "Pendulum_update dt g s = Inr (spec_step dt g s)"
  using assms
  by (simp add: Pendulum_update_def verlet_step_defined spec_step_def
      calculate_cartesian_positions_def Let_def)

lemma accelerations_undefined:
  assumes "\<not> spec_accel_defined s"
  shows "calculate_acceleration1 g s = Inl ZeroDivisionError \<or>
         (\<exists>a. calculate_acceleration1 g s = Inr a) \<and>
         calculate_acceleration2 g s = Inl ZeroDivisionError"
  using assms
  by (auto simp add: calculate_acceleration1_def calculate_acceleration2_def
      spec_accel_defined_def py_div_def Let_def)

lemma verlet_step_from_half:
  assumes "spec_accel_defined s"
  shows "velocity_verlet_step dt g s =
           (case calculate_acceleration1 g (spec_half_step dt g s) of
              Inl e \<Rightarrow> Inl (e, spec_half_step dt g s)
            | Inr a \<Rightarrow>
              (case calculate_acceleration2 g (spec_half_step dt g s) of
                 Inl e \<Rightarrow> Inl (e, spec_half_step dt g s)
               | Inr b \<Rightarrow>
                   Inr ((spec_half_step dt g s)
                     \<lparr>velocity1 := velocity1 (spec_half_step dt g s) + 0.5 * a * dt,
                      velocity2 := velocity2 (spec_half_step dt g s) + 0.5 * b * dt\<rparr>)))"
  using assms
  by (simp add: velocity_verlet_step_def acceleration1_defined acceleration2_defined
      Let_def spec_half_step_def split: sum.splits)

text \<open>A zero divisor only after the half step: \<open>update\<close> raises ZeroDivisionError and
  leaves the pendulum with the half-stepped velocities and the new angles.\<close>

lemma update_half_undefined_raises:
  assumes "\<not> dragging s" and "spec_accel_defined s"
    and "\<not> spec_accel_defined (spec_half_step dt g s)"
  shows "Pendulum_update dt g s = Inl (ZeroDivisionError, spec_half_step dt g s)"
  using assms(1) accelerations_undefined [OF assms(3), of g]
  by (auto simp add: Pendulum_update_def verlet_step_from_half [OF assms(2)])

text \<open>With a positive first mass and a second mass that is not negative the divisors
  vanish only with a rod length.\<close>

lemma accel_defined_positive:
  assumes "0 < mass1 s" and "0 \<le> mass2 s" and "length1 s \<noteq> 0" and "length2 s \<noteq> 0"
  shows "spec_accel_defined s"
proof -
  have "mass2 s * cos (2 * angle1 s - 2 * angle2 s) \<le> mass2 s * 1"
    using assms(2) by (intro mult_left_mono) simp_all
  with assms(1) have "0 < 2 * mass1 s + mass2 s - mass2 s * cos (2 * angle1 s - 2 * angle2 s)"
    by simp
  with assms(3,4) show ?thesis by (simp add: spec_accel_defined_def)
qed

lemma half_step_frame:
  "mass1 (spec_half_step dt g s) = mass1 s" "mass2 (spec_half_step dt g s) = mass2 s"
  "length1 (spec_half_step dt g s) = length1 s" "length2 (spec_half_step dt g s) = length2 s"
  "dragging (spec_half_step dt g s) = dragging s"
  by (simp_all add: spec_half_step_def Let_def)

lemma py_mod_small: "0 \<le> x \<Longrightarrow> x < y \<Longrightarrow> py_mod x y = x"
proof -
  assume a: "0 \<le> x" "x < y"
  then have "\<lfloor>x / y\<rfloor> = 0" by (simp add: floor_eq_iff)
  then show ?thesis by (simp add: py_mod_def)
qed

subsection \<open>The examples\<close>

lemma horizontal_accelerations:
  "spec_accel1 240 example_horizontal = - 2" "spec_accel2 240 example_horizontal = 0"
  by (simp_all add: spec_accel1_def spec_accel2_def example_horizontal_def Pendulum_init_def)

lemma horizontal_defined:
  "\<not> dragging example_horizontal"
  "spec_accel_defined example_horizontal"
  "spec_accel_defined (spec_half_step (1/10) 240 example_horizontal)"
proof -
  have f: "0 < mass1 example_horizontal" "0 \<le> mass2 example_horizontal"
    "length1 example_horizontal \<noteq> 0" "length2 example_horizontal \<noteq> 0"
    by (simp_all add: example_horizontal_def Pendulum_init_def)
  show "\<not> dragging example_horizontal"
    by (simp add: example_horizontal_def Pendulum_init_def)
  show "spec_accel_defined example_horizontal"
    using f by (rule accel_defined_positive)
  show "spec_accel_defined (spec_half_step (1/10) 240 example_horizontal)"
    using f by (intro accel_defined_positive) (simp_all add: half_step_frame)
qed

lemma horizontal_half_step:
  "spec_half_step (1/10) 240 example_horizontal
     = example_horizontal\<lparr>velocity1 := - 1 / 10, angle1 := pi / 2 - 1 / 100\<rparr>"
proof -
  have "0 \<le> 3 * pi / 2 - 1 / 100" "3 * pi / 2 - 1 / 100 < 2 * pi"
    "0 \<le> 3 * pi / 2" "3 * pi / 2 < 2 * pi"
    using pi_ge_two by simp_all
  then have m: "py_mod (3 * pi / 2 - 1 / 100) (2 * pi) = 3 * pi / 2 - 1 / 100"
    "py_mod (3 * pi / 2) (2 * pi) = 3 * pi / 2"
    by (simp_all only: py_mod_small)
  have v: "velocity1 example_horizontal = 0" "velocity2 example_horizontal = 0"
    "angle1 example_horizontal = pi / 2" "angle2 example_horizontal = pi / 2"
    by (simp_all add: example_horizontal_def Pendulum_init_def)
  show ?thesis
    by (simp add: spec_half_step_def Let_def horizontal_accelerations v m)
qed

lemma zero_length_undefined:
  "\<not> dragging example_zero_length" "\<not> spec_accel_defined example_zero_length"
  by (simp_all add: example_zero_length_def Pendulum_set_length_def
      calculate_cartesian_positions_def spec_accel_defined_def Let_def Pendulum_init_def)

lemma massless_half_step:
  "spec_half_step 1 0 example_massless
     = example_massless\<lparr>velocity1 := - pi / 4, angle1 := pi / 4, angle2 := pi / 4\<rparr>"
proof -
  have "0 \<le> 5 * pi / 4" "5 * pi / 4 < 2 * pi" using pi_ge_two by simp_all
  then have m: "py_mod (5 * pi / 4) (2 * pi) = 5 * pi / 4"
    by (simp only: py_mod_small)
  have a: "spec_accel1 0 example_massless = - pi / 2" "spec_accel2 0 example_massless = 0"
    by (simp_all add: spec_accel1_def spec_accel2_def example_massless_def Pendulum_init_def
        power2_eq_square)
  have v: "velocity1 example_massless = 0" "velocity2 example_massless = pi / 4"
    "angle1 example_massless = pi / 2" "angle2 example_massless = 0"
    by (simp_all add: example_massless_def Pendulum_init_def)
  show ?thesis
    by (simp add: spec_half_step_def Let_def a v m)
qed

lemma massless_defined:
  "\<not> dragging example_massless" "spec_accel_defined example_massless"
  "\<not> spec_accel_defined (spec_half_step 1 0 example_massless)"
proof -
  show "\<not> dragging example_massless" "spec_accel_defined example_massless"
    by (simp_all add: example_massless_def spec_accel_defined_def Pendulum_init_def)
  show "\<not> spec_accel_defined (spec_half_step 1 0 example_massless)"
    by (simp add: massless_half_step)
       (simp add: example_massless_def spec_accel_defined_def Pendulum_init_def)
qed

subsection \<open>The scheme\<close>

text \<open>
  Claim C1 says that for every pendulum that is not dragged \<open>update(dt, gravity)\<close>
  advances the state by the scheme. The pendulum that \<open>set_length(1, 0)\<close> leaves is not
  dragged and the divisor of its first acceleration is zero: \<open>update\<close> raises
  ZeroDivisionError and no angle or velocity is advanced.
\<close>

theorem update_zero_length_counterexample:
  "\<not> dragging example_zero_length \<and>
   Pendulum_update (1/100) (981/100) example_zero_length
     = Inl (ZeroDivisionError, example_zero_length)"
  by (simp add: zero_length_undefined update_undefined_raises)

text \<open>
  Claim C1, amended. For a pendulum that is not dragged, when the divisors of the two
  acceleration formulas are not zero in the current state and in the state after the
  half step, \<open>update(dt, gravity)\<close> advances the state by the scheme of the
  specification: the accelerations \<open>acc_old\<close> of the current state by the closed-form
  formulas, \<open>v += 0.5 * acc_old * dt\<close>, \<open>a += v * dt\<close> and the normalisation by the
  modulo, the accelerations \<open>acc_new\<close> of the new angles and the half-stepped
  velocities, \<open>v += 0.5 * acc_new * dt\<close>, and last the Cartesian offsets from the new
  angles and the lengths. When a divisor is zero in the current state, \<open>update\<close> raises
  ZeroDivisionError and leaves the pendulum as it was; when one is zero only after the
  half step, it raises ZeroDivisionError and leaves the pendulum with the half-stepped
  velocities and the new normalised angles.
\<close>

theorem update_scheme_or_zero_division:
  assumes "\<not> dragging s"
  shows "(spec_accel_defined s \<and> spec_accel_defined (spec_half_step dt g s) \<longrightarrow>
            Pendulum_update dt g s = Inr (spec_step dt g s)) \<and>
         (\<not> spec_accel_defined s \<longrightarrow>
            Pendulum_update dt g s = Inl (ZeroDivisionError, s)) \<and>
         (spec_accel_defined s \<and> \<not> spec_accel_defined (spec_half_step dt g s) \<longrightarrow>
            Pendulum_update dt g s = Inl (ZeroDivisionError, spec_half_step dt g s))"
  using assms
  by (simp add: update_defined_returns update_undefined_raises update_half_undefined_raises)

theorem update_scheme_or_zero_division_witness:
  "\<not> dragging example_horizontal \<and>
   spec_accel_defined example_horizontal \<and>
   spec_accel_defined (spec_half_step (1/10) 240 example_horizontal) \<and>
   spec_accel1 240 example_horizontal = - 2 \<and>
   spec_half_step (1/10) 240 example_horizontal
     = example_horizontal\<lparr>velocity1 := - 1 / 10, angle1 := pi / 2 - 1 / 100\<rparr> \<and>
   Pendulum_update (1/10) 240 example_horizontal
     = Inr (spec_step (1/10) 240 example_horizontal) \<and>
   \<not> dragging example_zero_length \<and> \<not> spec_accel_defined example_zero_length \<and>
   Pendulum_update (1/100) (981/100) example_zero_length
     = Inl (ZeroDivisionError, example_zero_length) \<and>
   \<not> dragging example_massless \<and> spec_accel_defined example_massless \<and>
   \<not> spec_accel_defined (spec_half_step 1 0 example_massless) \<and>
   Pendulum_update 1 0 example_massless
     = Inl (ZeroDivisionError,
            example_massless\<lparr>velocity1 := - pi / 4, angle1 := pi / 4, angle2 := pi / 4\<rparr>)"
  using horizontal_defined horizontal_accelerations(1) horizontal_half_step
    zero_length_undefined massless_defined massless_half_step
    update_scheme_or_zero_division [OF horizontal_defined(1), of "1/10" 240]
    update_scheme_or_zero_division [OF zero_length_undefined(1), of "1/100" "981/100"]
    update_scheme_or_zero_division [OF massless_defined(1), of 1 0]
  by simp

subsection \<open>The range of the angles after a step\<close>

lemma py_mod_range:
  assumes "0 < y"
  shows "0 \<le> py_mod x y \<and> py_mod x y < y"
proof -
  have yx: "y * (x / y) = x" using assms by simp
  have "y * of_int \<lfloor>x / y\<rfloor> \<le> y * (x / y)"
    using assms by (intro mult_left_mono) simp_all
  then have lo: "y * of_int \<lfloor>x / y\<rfloor> \<le> x" by (simp only: yx)
  have "x / y < of_int \<lfloor>x / y\<rfloor> + 1" by linarith
  then have "y * (x / y) < y * (of_int \<lfloor>x / y\<rfloor> + 1)"
    using assms by (simp only: mult_less_cancel_left_pos)
  then have hi: "x < y * of_int \<lfloor>x / y\<rfloor> + y" by (simp only: yx distrib_left mult_1_right)
  from lo hi show ?thesis by (simp add: py_mod_def)
qed

lemma normalized_angle_range:
  "- pi \<le> py_mod (a + pi) (2 * pi) - pi \<and> py_mod (a + pi) (2 * pi) - pi \<le> pi"
  using py_mod_range [of "2 * pi" "a + pi"] by simp

lemma verlet_step_angles:
  assumes "velocity_verlet_step dt g s = Inr s'"
  shows "\<exists>a b. angle1 s' = py_mod (a + pi) (2 * pi) - pi \<and>
               angle2 s' = py_mod (b + pi) (2 * pi) - pi"
  using assms
  by (auto simp add: velocity_verlet_step_def Let_def split: sum.splits)

text \<open>
  Claim C2 says that after a non-dragged \<open>update\<close> both angles lie in \<open>(-\<pi>, \<pi>]\<close>.
  A pendulum at rest with \<open>angle1 = \<pi>\<close>, \<open>angle2 = 0\<close>, stepped with \<open>dt = 0.01\<close> and
  \<open>gravity = 0\<close>, has zero accelerations, and the normalisation
  \<open>((\<pi> + \<pi>) % 2\<pi>) - \<pi>\<close> leaves \<open>angle1 = -\<pi>\<close>, which is not greater than \<open>-\<pi>\<close>.
\<close>

theorem update_angles_interval_counterexample:
  "\<not> dragging ((Pendulum_init 0)\<lparr>angle1 := pi, angle2 := 0\<rparr>) \<and>
   Pendulum_update (1/100) 0 ((Pendulum_init 0)\<lparr>angle1 := pi, angle2 := 0\<rparr>)
     = Inr ((Pendulum_init 0)\<lparr>angle1 := - pi, angle2 := 0, y1 := - 120, y2 := 0\<rparr>) \<and>
   \<not> (- pi < angle1 ((Pendulum_init 0)\<lparr>angle1 := - pi, angle2 := 0, y1 := - 120, y2 := 0\<rparr>))"
  by (simp add: Pendulum_update_def velocity_verlet_step_def calculate_acceleration1_def
      calculate_acceleration2_def py_div_def py_mod_def calculate_cartesian_positions_def
      Let_def Pendulum_init_def)

text \<open>
  Claim C2, amended. For every \<open>dt\<close> and \<open>gravity\<close>, after a non-dragged \<open>update\<close> that
  returns, both angles lie in the closed interval \<open>[-\<pi>, \<pi>]\<close>: at least \<open>-\<pi>\<close> and at
  most \<open>\<pi>\<close>.
\<close>

theorem update_angles_normalized:
  assumes "\<not> dragging s" and "Pendulum_update dt g s = Inr s'"
  shows "- pi \<le> angle1 s' \<and> angle1 s' \<le> pi \<and> - pi \<le> angle2 s' \<and> angle2 s' \<le> pi"
proof -
  from assms obtain s1 where v: "velocity_verlet_step dt g s = Inr s1"
    and s': "s' = calculate_cartesian_positions s1"
    by (auto simp add: Pendulum_update_def split: sum.splits)
  from verlet_step_angles [OF v] obtain a b
    where "angle1 s1 = py_mod (a + pi) (2 * pi) - pi"
      and "angle2 s1 = py_mod (b + pi) (2 * pi) - pi" by blast
  moreover have "angle1 s' = angle1 s1" "angle2 s' = angle2 s1"
    by (simp_all add: s' calculate_cartesian_positions_def Let_def)
  ultimately show ?thesis
    using normalized_angle_range [of a] normalized_angle_range [of b] by simp
qed

lemma horizontal_update:
  "Pendulum_update (1/10) 240 example_horizontal
     = Inr (spec_step (1/10) 240 example_horizontal)"
  using horizontal_defined by (rule update_defined_returns)

lemma horizontal_step_angle1:
  "angle1 (spec_step (1/10) 240 example_horizontal) = pi / 2 - 1 / 100"
  by (simp add: spec_step_def Let_def horizontal_half_step)

theorem update_angles_normalized_witness:
  "\<not> dragging example_horizontal \<and>
   Pendulum_update (1/10) 240 example_horizontal
     = Inr (spec_step (1/10) 240 example_horizontal) \<and>
   angle1 (spec_step (1/10) 240 example_horizontal) = pi / 2 - 1 / 100 \<and>
   - pi \<le> angle1 (spec_step (1/10) 240 example_horizontal) \<and>
   angle1 (spec_step (1/10) 240 example_horizontal) \<le> pi"
  using horizontal_defined(1) horizontal_update horizontal_step_angle1
    update_angles_normalized [OF horizontal_defined(1) horizontal_update]
  by blast

section \<open>Energy\<close>

text \<open>
  Claim C7. For every gravity \<open>g\<close>, \<open>calculate_energy(g)\<close> returns the triple
  \<open>(kinetic, potential, total)\<close> of the specification, with \<open>y1 = -l1 cos a1\<close>,
  \<open>y2 = y1 - l2 cos a2\<close>, \<open>vx1 = l1 v1 cos a1\<close>, \<open>vy1 = l1 v1 sin a1\<close>,
  \<open>vx2 = vx1 + l2 v2 cos a2\<close>, \<open>vy2 = vy1 + l2 v2 sin a2\<close>,
  \<open>kinetic = 0.5 m1 (vx1\<^sup>2 + vy1\<^sup>2) + 0.5 m2 (vx2\<^sup>2 + vy2\<^sup>2)\<close>,
  \<open>potential = m1 g (y1 + l1) + m2 g (y2 + l1 + l2)\<close> and
  \<open>total = kinetic + potential\<close>, and leaves the pendulum as it was.
\<close>

theorem calculate_energy_formula:
  "Pendulum_calculate_energy g s = (spec_energy g s, s)"
  by (simp add: Pendulum_calculate_energy_def spec_energy_def Let_def)

section \<open>The path trace\<close>

text \<open>The loop of \<open>set_duration\<close> keeps the samples whose index is below the new
  maximum; the new deque is never too long, so none is dropped on the left.\<close>

lemma set_duration_loop_take:
  assumes "0 \<le> mp" and "maxlen d = nat mp" and "items d = take (nat mp) pre"
    and "length pre = n"
  shows "set_duration_loop mp (enumerate n xs) d
           = d\<lparr>items := take (nat mp) (pre @ xs)\<rparr>"
  using assms
proof (induction xs arbitrary: n d pre)
  case Nil
  then show ?case by simp
next
  case (Cons x xs)
  show ?case
  proof (cases "int n < mp")
    case True
    with Cons.prems have n: "n < nat mp" by simp
    let ?d = "deque_append x d"
    have it: "items ?d = take (nat mp) (pre @ [x])"
      using Cons.prems n by (simp add: deque_append_def Let_def)
    have ml: "maxlen ?d = nat mp"
      using Cons.prems by (simp add: deque_append_def Let_def)
    have "set_duration_loop mp (enumerate (Suc n) xs) ?d
            = ?d\<lparr>items := take (nat mp) ((pre @ [x]) @ xs)\<rparr>"
      using Cons.prems by (intro Cons.IH [OF _ ml it]) simp_all
    then show ?thesis
      using True by (simp add: deque_append_def Let_def)
  next
    case False
    with Cons.prems have n: "nat mp \<le> n" by simp
    have it: "items d = take (nat mp) (pre @ [x])"
      using Cons.prems n by simp
    have "set_duration_loop mp (enumerate (Suc n) xs) d
            = d\<lparr>items := take (nat mp) ((pre @ [x]) @ xs)\<rparr>"
      using Cons.prems by (intro Cons.IH [OF _ _ it]) simp_all
    then show ?thesis
      using False by simp
  qed
qed

lemma set_duration_capacity_fits:
  assumes "0 \<le> py_int (seconds * fps)" and "py_int (seconds * fps) < 2 ^ 63"
  shows "PathTracer_set_duration seconds fps t =
           Inr (t\<lparr>max_points := py_int (seconds * fps),
                  points := \<lparr>items = take (nat (py_int (seconds * fps))) (items (points t)),
                             maxlen = nat (py_int (seconds * fps))\<rparr>\<rparr>)"
proof -
  let ?mp = "py_int (seconds * fps)"
  let ?d = "\<lparr>items = [], maxlen = nat ?mp\<rparr>"
  have "set_duration_loop ?mp (enumerate 0 (items (points t))) ?d
          = ?d\<lparr>items := take (nat ?mp) ([] @ items (points t))\<rparr>"
    using assms(1) by (intro set_duration_loop_take) simp_all
  then show ?thesis
    using assms by (simp add: PathTracer_set_duration_def deque_new_def Let_def)
qed

text \<open>A capacity that is negative or does not fit the deque: \<open>set_duration\<close> raises
  with the samples as they were.\<close>

lemma set_duration_capacity_refused:
  assumes "py_int (seconds * fps) < 0 \<or> 2 ^ 63 \<le> py_int (seconds * fps)"
  shows "PathTracer_set_duration seconds fps t =
           Inl (if py_int (seconds * fps) < - (2 ^ 63) \<or> 2 ^ 63 \<le> py_int (seconds * fps)
                then OverflowError else ValueError,
                t\<lparr>max_points := py_int (seconds * fps)\<rparr>)"
  using assms by (auto simp add: PathTracer_set_duration_def deque_new_def Let_def)

text \<open>
  Claim C5. For every PathTracer holding a sequence of samples,
  \<open>set_duration(seconds, sample_rate)\<close> sets the capacity to
  \<open>floor(seconds * sample_rate)\<close>, and the stored sequence becomes exactly the first
  \<open>min(capacity, old_length)\<close> samples of the old sequence in their oldest-first order:
  when shrinking, the oldest samples survive, and a trace of 10 samples reduced to
  capacity 4 holds the first 4 of the 10 in order. The statement is for a duration and
  rate whose product is not negative and whose capacity the deque accepts (below
  \<open>2\<^sup>6\<^sup>3\<close>).
\<close>

theorem set_duration_keeps_oldest:
  assumes "0 \<le> seconds * fps" and "seconds * fps < 2 ^ 63"
  shows "PathTracer_set_duration seconds fps t =
           Inr (t\<lparr>max_points := \<lfloor>seconds * fps\<rfloor>,
                  points := \<lparr>items = take (min (nat \<lfloor>seconds * fps\<rfloor>) (length (items (points t))))
                                         (items (points t)),
                             maxlen = nat \<lfloor>seconds * fps\<rfloor>\<rparr>\<rparr>)"
proof -
  from assms(1) have f: "py_int (seconds * fps) = \<lfloor>seconds * fps\<rfloor>"
    and n: "0 \<le> py_int (seconds * fps)"
    by (simp_all add: py_int_def)
  from assms(2) have "\<lfloor>seconds * fps\<rfloor> < 2 ^ 63"
    by (simp add: floor_less_iff)
  with f have u: "py_int (seconds * fps) < 2 ^ 63" by simp
  show ?thesis
    using set_duration_capacity_fits [OF n u, of t] by (simp add: f min_def)
qed

theorem set_duration_keeps_oldest_witness:
  "(0::real) \<le> 4 * 1 \<and> (4::real) * 1 < 2 ^ 63 \<and>
   length (items (points example_trace)) = 10 \<and>
   PathTracer_set_duration 4 1 example_trace
     = Inr (PathTracer_init\<lparr>max_points := 4,
              points := \<lparr>items = [(0, 0), (1, 1), (2, 2), (3, 3)], maxlen = 4\<rparr>\<rparr>)"
proof -
  have a: "(0::real) \<le> 4 * 1" and b: "(4::real) * 1 < 2 ^ 63" by simp_all
  show ?thesis
    using a b set_duration_keeps_oldest [OF a b, of example_trace]
    by (simp add: ten_samples_def example_trace_def)
qed

section \<open>Dragging\<close>

text \<open>
  Claim C6. \<open>start_drag(position, screen_center)\<close> tests the second bob first: a pointer
  within \<open>max(10, mass2)\<close> of the screen position of bob 2 starts the drag of joint 2
  and reports success, also when it is within \<open>max(10, mass1)\<close> of bob 1; only when
  bob 2 is missed is bob 1 tested, with radius \<open>max(10, mass1)\<close>; when both are missed
  the call reports failure and the pendulum is as it was.
\<close>

theorem start_drag_second_bob_first:
  "(bob2_distance position screen_center s \<le> max 10 (mass2 s) \<longrightarrow>
      Pendulum_start_drag position screen_center s
        = (True, s\<lparr>dragging := True, drag_joint := 2\<rparr>)) \<and>
   (\<not> bob2_distance position screen_center s \<le> max 10 (mass2 s) \<and>
    bob1_distance position screen_center s \<le> max 10 (mass1 s) \<longrightarrow>
      Pendulum_start_drag position screen_center s
        = (True, s\<lparr>dragging := True, drag_joint := 1\<rparr>)) \<and>
   (\<not> bob2_distance position screen_center s \<le> max 10 (mass2 s) \<and>
    \<not> bob1_distance position screen_center s \<le> max 10 (mass1 s) \<longrightarrow>
      Pendulum_start_drag position screen_center s = (False, s))"
  by (simp add: Pendulum_start_drag_def bob1_distance_def bob2_distance_def Let_def
      power2_eq_square)

section \<open>Reset\<close>


lemma cartesian_initial_state [simp]:
  "initial_state (calculate_cartesian_positions s) = initial_state s"
  by (simp add: calculate_cartesian_positions_def Let_def)









section \<open>The pendulum system\<close>

lemma entries_map_of:
  "distinct (map fst al) \<Longrightarrow> (k, r) \<in> set al \<longleftrightarrow> map_of al k = Some r"
  by simp

lemma keys_map_of: "k \<in> fst ` set al \<longleftrightarrow> map_of al k \<noteq> None"
  by (simp add: map_of_eq_None_iff)

text \<open>\<open>system_ok\<close> with the dictionary read as a map.\<close>

lemma system_ok_iff:
  "system_ok sys \<longleftrightarrow>
     distinct (map fst (pendulums sys)) \<and>
     (\<forall>k r. map_of (pendulums sys) k = Some r \<longrightarrow>
        r < length (heap sys) \<and> pendulum_id (heap sys ! r) = k) \<and>
     (\<forall>r. selected_pendulum sys = Some r \<longrightarrow> (\<exists>k. map_of (pendulums sys) k = Some r))"
proof (cases "distinct (map fst (pendulums sys))")
  case True
  have "r \<in> snd ` set (pendulums sys) \<longleftrightarrow> (\<exists>k. map_of (pendulums sys) k = Some r)" for r
  proof
    assume "r \<in> snd ` set (pendulums sys)"
    then obtain k where "(k, r) \<in> set (pendulums sys)" by force
    then have "map_of (pendulums sys) k = Some r" using True by simp
    then show "\<exists>k. map_of (pendulums sys) k = Some r" by blast
  next
    assume "\<exists>k. map_of (pendulums sys) k = Some r"
    then obtain k where "map_of (pendulums sys) k = Some r" by blast
    then have "(k, r) \<in> set (pendulums sys)" by (rule map_of_SomeD)
    then show "r \<in> snd ` set (pendulums sys)" by force
  qed
  then show ?thesis
    using True by (auto simp add: system_ok_def selection_live_def split: option.splits)
next
  case False
  then show ?thesis by (simp add: system_ok_def)
qed

lemma system_ok_init: "system_ok PendulumSystem_init"
  by (simp add: system_ok_def selection_live_def PendulumSystem_init_def)

lemma system_ok_initialize: "system_ok (PendulumSystem_initialize sys)"
  by (simp add: system_ok_def selection_live_def PendulumSystem_initialize_def)

lemma system_ok_clear: "system_ok (PendulumSystem_clear sys)"
  by (simp add: system_ok_def selection_live_def PendulumSystem_clear_def)

lemma cartesian_id [simp]:
  "pendulum_id (calculate_cartesian_positions s) = pendulum_id s"
  by (simp add: calculate_cartesian_positions_def Let_def)

lemma update_pendulum_id:
  "pendulum_id (state_after (Pendulum_update dt g s)) = pendulum_id s"
  by (simp add: Pendulum_update_def velocity_verlet_step_def state_after_def Let_def
      split: sum.splits)

lemma system_ok_heap_update:
  assumes "system_ok sys" and "pendulum_id p = pendulum_id (heap sys ! r)"
  shows "system_ok (sys\<lparr>heap := (heap sys)[r := p]\<rparr>)"
proof -
  have "pendulum_id ((heap sys)[r := p] ! j) = pendulum_id (heap sys ! j)" for j
    using assms(2) by (cases "r < length (heap sys)") (simp_all add: nth_list_update list_update_beyond)
  then show ?thesis
    using assms(1) by (simp add: system_ok_def selection_live_def split: option.splits)
qed

lemma system_ok_update_loop:
  "system_ok sys \<Longrightarrow> system_ok (state_after (update_loop dt g rs sys))"
proof (induction rs arbitrary: sys)
  case Nil
  then show ?case by (simp add: state_after_def)
next
  case (Cons r rs)
  show ?case
  proof (cases "Pendulum_update dt g (heap sys ! r)")
    case (Inl ep)
    obtain e p where ep: "ep = (e, p)" by (cases ep)
    have "pendulum_id p = pendulum_id (heap sys ! r)"
      using Inl ep update_pendulum_id [of dt g "heap sys ! r"]
      by (simp add: state_after_def)
    then have "system_ok (sys\<lparr>heap := (heap sys)[r := p]\<rparr>)"
      using Cons.prems by (rule system_ok_heap_update [rotated])
    then show ?thesis
      using Inl ep by (simp add: state_after_def)
  next
    case (Inr p)
    then have "pendulum_id p = pendulum_id (heap sys ! r)"
      using update_pendulum_id [of dt g "heap sys ! r"] by (simp add: state_after_def)
    then have "system_ok (sys\<lparr>heap := (heap sys)[r := p]\<rparr>)"
      using Cons.prems by (rule system_ok_heap_update [rotated])
    then show ?thesis
      using Inr Cons.IH by simp
  qed
qed

lemma system_ok_update:
  "system_ok sys \<Longrightarrow> system_ok (state_after (PendulumSystem_update dt g sys))"
  by (simp add: PendulumSystem_update_def system_ok_update_loop)

lemma initialize_pendulum_id:
  "pendulum_id (state_after (Pendulum_initialize p s)) = pendulum_id s"
  by (simp add: Pendulum_initialize_def PathTracer_initialize_def deque_new_def Let_def
      state_after_def)

lemma system_ok_create:
  assumes "system_ok sys"
  shows "system_ok (perform (CreatePendulum params) sys)"
proof (cases "Pendulum_initialize params (Pendulum_init (next_pendulum_id sys))")
  case (Inl ep)
  obtain e p where ep: "ep = (e, p)" by (cases ep)
  have "system_ok (sys\<lparr>next_pendulum_id := next_pendulum_id sys + 1,
                        heap := heap sys @ [p]\<rparr>)"
    using assms by (auto simp add: system_ok_def selection_live_def nth_append split: option.splits)
  then show ?thesis
    using Inl ep by (simp add: PendulumSystem_create_pendulum_def Let_def)
next
  case (Inr p)
  let ?k = "next_pendulum_id sys"
  let ?r = "length (heap sys)"
  let ?sys = "sys\<lparr>next_pendulum_id := ?k + 1, heap := heap sys @ [p],
                   pendulums := AList.update ?k ?r (pendulums sys),
                   selected_pendulum := Some ?r\<rparr>"
  have idp: "pendulum_id p = ?k"
    using Inr initialize_pendulum_id [of params "Pendulum_init ?k"]
    by (simp add: state_after_def Pendulum_init_def)
  from assms [unfolded system_ok_iff] have ok: "distinct (map fst (pendulums sys))"
    "\<And>k r. map_of (pendulums sys) k = Some r \<Longrightarrow>
        r < length (heap sys) \<and> pendulum_id (heap sys ! r) = k"
    by blast+
  have "system_ok ?sys"
    unfolding system_ok_iff
  proof (intro conjI allI impI)
    show "distinct (map fst (pendulums ?sys))"
      using ok(1) by (simp add: AList.distinct_update)
  next
    fix k r assume "map_of (pendulums ?sys) k = Some r"
    then have "(k = ?k \<and> r = ?r) \<or> (k \<noteq> ?k \<and> map_of (pendulums sys) k = Some r)"
      by (auto simp add: AList.update_conv' split: if_splits)
    then show "r < length (heap ?sys)"
      using ok(2) [of k r] by auto
    from \<open>(k = ?k \<and> r = ?r) \<or> (k \<noteq> ?k \<and> map_of (pendulums sys) k = Some r)\<close>
    show "pendulum_id (heap ?sys ! r) = k"
      using ok(2) [of k r] idp by (auto simp add: nth_append)
  next
    fix r assume "selected_pendulum ?sys = Some r"
    then have "map_of (pendulums ?sys) ?k = Some r"
      by (simp add: AList.update_conv')
    then show "\<exists>k. map_of (pendulums ?sys) k = Some r" by blast
  qed
  then show ?thesis
    using Inr by (simp add: PendulumSystem_create_pendulum_def Let_def)
qed

lemma remove_present:
  assumes "system_ok sys" and "map_of (pendulums sys) pid = Some r"
  shows "PendulumSystem_remove_pendulum pid sys =
           (True, sys\<lparr>selected_pendulum :=
                         (if selected_pendulum sys = Some r then None else selected_pendulum sys),
                       pendulums := AList.delete pid (pendulums sys)\<rparr>)"
proof -
  from assms(1) [unfolded system_ok_iff] have ok: "distinct (map fst (pendulums sys))"
    "\<And>k r. map_of (pendulums sys) k = Some r \<Longrightarrow>
        r < length (heap sys) \<and> pendulum_id (heap sys ! r) = k"
    "\<And>r. selected_pendulum sys = Some r \<Longrightarrow> \<exists>k. map_of (pendulums sys) k = Some r"
    by blast+
  have mem: "pid \<in> fst ` set (pendulums sys)"
    using assms(2) by (simp add: keys_map_of)
  have sel: "pendulum_id (heap sys ! q) = pid \<longleftrightarrow> q = r" if "selected_pendulum sys = Some q" for q
  proof
    assume "pendulum_id (heap sys ! q) = pid"
    moreover from ok(3) [OF that] obtain k where k: "map_of (pendulums sys) k = Some q" by blast
    ultimately have "k = pid" using ok(2) [OF k] by simp
    with k assms(2) show "q = r" by simp
  next
    assume "q = r"
    then show "pendulum_id (heap sys ! q) = pid" using ok(2) [OF assms(2)] by simp
  qed
  show ?thesis
  proof (cases "selected_pendulum sys")
    case None
    then show ?thesis using mem by (simp add: PendulumSystem_remove_pendulum_def)
  next
    case (Some q)
    then show ?thesis
      using mem sel [OF Some] by (simp add: PendulumSystem_remove_pendulum_def)
  qed
qed

lemma remove_absent:
  "map_of (pendulums sys) pid = None \<Longrightarrow> PendulumSystem_remove_pendulum pid sys = (False, sys)"
  by (simp add: PendulumSystem_remove_pendulum_def keys_map_of)

lemma system_ok_remove:
  assumes "system_ok sys"
  shows "system_ok (snd (PendulumSystem_remove_pendulum pid sys))"
proof (cases "map_of (pendulums sys) pid")
  case None
  then show ?thesis using assms by (simp add: remove_absent)
next
  case (Some r)
  from assms [unfolded system_ok_iff] have ok: "distinct (map fst (pendulums sys))"
    "\<And>k r. map_of (pendulums sys) k = Some r \<Longrightarrow>
        r < length (heap sys) \<and> pendulum_id (heap sys ! r) = k"
    "\<And>r. selected_pendulum sys = Some r \<Longrightarrow> \<exists>k. map_of (pendulums sys) k = Some r"
    by blast+
  let ?sys = "sys\<lparr>selected_pendulum :=
                         (if selected_pendulum sys = Some r then None else selected_pendulum sys),
                       pendulums := AList.delete pid (pendulums sys)\<rparr>"
  have "system_ok ?sys"
    unfolding system_ok_iff
  proof (intro conjI allI impI)
    show "distinct (map fst (pendulums ?sys))"
      using ok(1) by (simp add: AList.distinct_delete)
  next
    fix k q assume "map_of (pendulums ?sys) k = Some q"
    then have "map_of (pendulums sys) k = Some q"
      by (simp add: AList.delete_conv' split: if_splits)
    then show "q < length (heap ?sys)" "pendulum_id (heap ?sys ! q) = k"
      using ok(2) by simp_all
  next
    fix q assume "selected_pendulum ?sys = Some q"
    then have q: "selected_pendulum sys = Some q" "q \<noteq> r"
      by (auto split: if_splits)
    from ok(3) [OF q(1)] obtain k where k: "map_of (pendulums sys) k = Some q" by blast
    with Some q(2) have "k \<noteq> pid" by auto
    with k have "map_of (pendulums ?sys) k = Some q"
      by (simp add: AList.delete_conv')
    then show "\<exists>k. map_of (pendulums ?sys) k = Some q" by blast
  qed
  then show ?thesis
    using remove_present [OF assms Some] by simp
qed

lemma system_ok_select:
  assumes "system_ok sys"
  shows "system_ok (snd (PendulumSystem_select_pendulum pid sys))"
proof (cases "map_of (pendulums sys) pid")
  case None
  then show ?thesis using assms by (simp add: PendulumSystem_select_pendulum_def)
next
  case (Some r)
  then have "r \<in> snd ` set (pendulums sys)"
    by (metis map_of_SomeD image_eqI snd_conv)
  then show ?thesis
    using assms Some
    by (simp add: PendulumSystem_select_pendulum_def system_ok_def selection_live_def)
qed

lemma try_select_loop_result:
  "try_select_loop position screen_center rs sys = (None, sys) \<or>
   (\<exists>r \<in> set rs. try_select_loop position screen_center rs sys
                    = (Some r, sys\<lparr>selected_pendulum := Some r\<rparr>))"
  by (induction rs) (auto simp add: Let_def)

lemma system_ok_try_select:
  assumes "system_ok sys"
  shows "system_ok (snd (PendulumSystem_try_select_pendulum_at_position position screen_center sys))"
proof -
  from try_select_loop_result [of position screen_center "map snd (pendulums sys)" sys]
  consider "try_select_loop position screen_center (map snd (pendulums sys)) sys = (None, sys)"
    | r where "r \<in> snd ` set (pendulums sys)"
      "try_select_loop position screen_center (map snd (pendulums sys)) sys
         = (Some r, sys\<lparr>selected_pendulum := Some r\<rparr>)"
    by auto
  then show ?thesis
  proof cases
    case 1
    then show ?thesis
      using assms by (simp add: PendulumSystem_try_select_pendulum_at_position_def)
  next
    case 2
    then show ?thesis
      using assms
      by (simp add: PendulumSystem_try_select_pendulum_at_position_def system_ok_def
          selection_live_def)
  qed
qed

lemma system_ok_perform: "system_ok sys \<Longrightarrow> system_ok (perform operation sys)"
proof (cases operation)
  case Initialize
  then show ?thesis by (simp add: system_ok_initialize)
next
  case (UpdateAll dt g)
  assume "system_ok sys"
  with UpdateAll show ?thesis by (simp add: system_ok_update)
next
  case (CreatePendulum params)
  assume "system_ok sys"
  with CreatePendulum show ?thesis by (simp only: system_ok_create)
next
  case (RemovePendulum pid)
  assume "system_ok sys"
  with RemovePendulum show ?thesis by (simp add: system_ok_remove)
next
  case (SelectPendulum pid)
  assume "system_ok sys"
  with SelectPendulum show ?thesis by (simp add: system_ok_select)
next
  case (GetPendulumById pid)
  assume "system_ok sys"
  with GetPendulumById show ?thesis by (simp add: PendulumSystem_get_pendulum_by_id_def)
next
  case GetSelectedPendulum
  assume "system_ok sys"
  with GetSelectedPendulum show ?thesis by (simp add: PendulumSystem_get_selected_pendulum_def)
next
  case GetPendulumCount
  assume "system_ok sys"
  with GetPendulumCount show ?thesis by (simp add: PendulumSystem_get_pendulum_count_def)
next
  case Clear
  then show ?thesis by (simp add: system_ok_clear)
next
  case (TrySelectAt position screen_center)
  assume "system_ok sys"
  with TrySelectAt show ?thesis by (simp add: system_ok_try_select)
qed


lemma system_ok_perform_all: "system_ok sys \<Longrightarrow> system_ok (perform_all operations sys)"
  by (induction operations arbitrary: sys) (simp_all add: system_ok_perform)

section \<open>Example values\<close>

lemma example_body_created:
  "Pendulum_initialize example_params (Pendulum_init 0) = Inr example_body"
  by (simp add: example_body_def example_params_def Pendulum_initialize_def
      PathTracer_initialize_def deque_new_def py_int_def state_after_def Let_def)

lemma example_body_fields:
  "pendulum_id example_body = 0" "offset_x example_body = 0" "offset_y example_body = 0"
  "x1 example_body = 0" "y1 example_body = 120" "x2 example_body = 0" "y2 example_body = 240"
  "mass1 example_body = 10" "mass2 example_body = 10"
  "angle1 example_body = 0" "angle2 example_body = 0"
  "length1 example_body = 120" "length2 example_body = 120"
  by (simp_all add: example_body_def example_params_def Pendulum_initialize_def
      PathTracer_initialize_def deque_new_def py_int_def state_after_def Let_def
      calculate_cartesian_positions_def Pendulum_init_def)

lemma example_short_fields:
  "offset_x example_short = 0" "offset_y example_short = 0"
  "x1 example_short = 0" "y1 example_short = 120" "x2 example_short = 0" "y2 example_short = 125"
  "mass1 example_short = 10" "mass2 example_short = 10"
  by (simp_all add: example_short_def Pendulum_set_length_def calculate_cartesian_positions_def
      Let_def example_body_fields)

lemma example_distances:
  "bob2_distance (0, 125) (0, 0) example_short = 0"
  "bob1_distance (0, 125) (0, 0) example_short = 5"
  "bob2_distance (0, 120) (0, 0) example_body = 120"
  "bob1_distance (0, 120) (0, 0) example_body = 0"
  "bob2_distance (0, 0) (0, 0) example_body = 240"
  "bob1_distance (0, 0) (0, 0) example_body = 120"
proof -
  have a: "sqrt 25 = 5" using real_sqrt_abs [of 5] by simp
  have b: "sqrt 14400 = 120" using real_sqrt_abs [of 120] by simp
  have c: "sqrt 57600 = 240" using real_sqrt_abs [of 240] by simp
  show "bob2_distance (0, 125) (0, 0) example_short = 0"
    "bob1_distance (0, 125) (0, 0) example_short = 5"
    "bob2_distance (0, 120) (0, 0) example_body = 120"
    "bob1_distance (0, 120) (0, 0) example_body = 0"
    "bob2_distance (0, 0) (0, 0) example_body = 240"
    "bob1_distance (0, 0) (0, 0) example_body = 120"
    by (simp_all add: bob1_distance_def bob2_distance_def example_body_fields
        example_short_fields a b c)
qed

theorem start_drag_second_bob_first_witness:
  "bob2_distance (0, 125) (0, 0) example_short \<le> max 10 (mass2 example_short) \<and>
   bob1_distance (0, 125) (0, 0) example_short \<le> max 10 (mass1 example_short) \<and>
   Pendulum_start_drag (0, 125) (0, 0) example_short
     = (True, example_short\<lparr>dragging := True, drag_joint := 2\<rparr>) \<and>
   \<not> bob2_distance (0, 120) (0, 0) example_body \<le> max 10 (mass2 example_body) \<and>
   bob1_distance (0, 120) (0, 0) example_body \<le> max 10 (mass1 example_body) \<and>
   Pendulum_start_drag (0, 120) (0, 0) example_body
     = (True, example_body\<lparr>dragging := True, drag_joint := 1\<rparr>) \<and>
   \<not> bob2_distance (0, 0) (0, 0) example_body \<le> max 10 (mass2 example_body) \<and>
   \<not> bob1_distance (0, 0) (0, 0) example_body \<le> max 10 (mass1 example_body) \<and>
   Pendulum_start_drag (0, 0) (0, 0) example_body = (False, example_body)"
  using start_drag_second_bob_first [of "(0, 125)" "(0, 0)" example_short]
    start_drag_second_bob_first [of "(0, 120)" "(0, 0)" example_body]
    start_drag_second_bob_first [of "(0, 0)" "(0, 0)" example_body]
  by (simp add: example_distances example_body_fields example_short_fields)


lemma example_system_created:
  "PendulumSystem_create_pendulum example_params PendulumSystem_init = Inr (0, example_system)"
  by (simp add: PendulumSystem_create_pendulum_def PendulumSystem_init_def example_system_def
      example_body_created Let_def)

lemma example_system_ok: "system_ok example_system"
  by (simp add: system_ok_def selection_live_def example_system_def example_body_fields)

text \<open>
  Claim C8. For an id that is not a key of the dictionary, \<open>remove_pendulum\<close> returns
  False and \<open>select_pendulum\<close> and \<open>get_pendulum_by_id\<close> return None, and none of them
  raises or changes the system. For an id that is a key, \<open>remove_pendulum\<close> returns
  True, deletes the entry and clears the selection when the selection is the removed
  pendulum. The selected pendulum, when there is one, is a value of the dictionary:
  this holds of the empty system, every operation of the system maintains it, and so it
  holds after every sequence of operations.
\<close>

theorem ensemble_lookup_and_selection:
  "(pid \<notin> fst ` set (pendulums sys) \<longrightarrow>
      PendulumSystem_remove_pendulum pid sys = (False, sys) \<and>
      PendulumSystem_select_pendulum pid sys = (None, sys) \<and>
      PendulumSystem_get_pendulum_by_id pid sys = (None, sys)) \<and>
   (system_ok sys \<and> (pid, r) \<in> set (pendulums sys) \<longrightarrow>
      PendulumSystem_remove_pendulum pid sys =
        (True, sys\<lparr>selected_pendulum :=
                      (if selected_pendulum sys = Some r then None else selected_pendulum sys),
                    pendulums := AList.delete pid (pendulums sys)\<rparr>) \<and>
      pid \<notin> fst ` set (AList.delete pid (pendulums sys))) \<and>
   (system_ok sys \<longrightarrow>
      selection_live sys \<and> system_ok (perform operation sys) \<and>
      selection_live (perform operation sys)) \<and>
   system_ok PendulumSystem_init \<and>
   selection_live (perform_all operations PendulumSystem_init)"
proof (intro conjI impI)
  assume a: "pid \<notin> fst ` set (pendulums sys)"
  then have n: "map_of (pendulums sys) pid = None" by (simp add: map_of_eq_None_iff)
  show "PendulumSystem_remove_pendulum pid sys = (False, sys)"
    using n by (rule remove_absent)
  show "PendulumSystem_select_pendulum pid sys = (None, sys)"
    using n by (simp add: PendulumSystem_select_pendulum_def)
  show "PendulumSystem_get_pendulum_by_id pid sys = (None, sys)"
    using n by (simp add: PendulumSystem_get_pendulum_by_id_def)
next
  assume a: "system_ok sys \<and> (pid, r) \<in> set (pendulums sys)"
  then have "distinct (map fst (pendulums sys))" by (simp add: system_ok_def)
  with a have "map_of (pendulums sys) pid = Some r" by simp
  with a show "PendulumSystem_remove_pendulum pid sys =
        (True, sys\<lparr>selected_pendulum :=
                      (if selected_pendulum sys = Some r then None else selected_pendulum sys),
                    pendulums := AList.delete pid (pendulums sys)\<rparr>)"
    by (simp add: remove_present)
  show "pid \<notin> fst ` set (AList.delete pid (pendulums sys))"
    by (rule AList.delete_notin_dom)
next
  assume a: "system_ok sys"
  then show "selection_live sys" by (simp add: system_ok_def)
  from a have "system_ok (perform operation sys)" by (rule system_ok_perform)
  then show "system_ok (perform operation sys)" "selection_live (perform operation sys)"
    by (simp_all add: system_ok_def)
next
  show "system_ok PendulumSystem_init" by (rule system_ok_init)
  then have "system_ok (perform_all operations PendulumSystem_init)"
    by (rule system_ok_perform_all)
  then show "selection_live (perform_all operations PendulumSystem_init)"
    by (simp add: system_ok_def)
qed

theorem ensemble_lookup_and_selection_witness:
  "(5::int) \<notin> fst ` set (pendulums example_system) \<and>
   PendulumSystem_remove_pendulum 5 example_system = (False, example_system) \<and>
   PendulumSystem_select_pendulum 5 example_system = (None, example_system) \<and>
   PendulumSystem_get_pendulum_by_id 5 example_system = (None, example_system) \<and>
   system_ok example_system \<and> (0, 0) \<in> set (pendulums example_system) \<and>
   PendulumSystem_remove_pendulum 0 example_system =
     (True, example_system\<lparr>selected_pendulum := None, pendulums := []\<rparr>) \<and>
   selection_live (perform (RemovePendulum 0) example_system)"
proof -
  have a: "(5::int) \<notin> fst ` set (pendulums example_system)"
    and b: "(0, 0) \<in> set (pendulums example_system)"
    and c: "selected_pendulum example_system = Some 0"
    and d: "AList.delete 0 (pendulums example_system) = []"
    by (simp_all add: example_system_def)
  show ?thesis
    using a b example_system_ok
      ensemble_lookup_and_selection [of 5 example_system 0 "RemovePendulum 0" "[]"]
      ensemble_lookup_and_selection [of 0 example_system 0 "RemovePendulum 0" "[]"]
    by (simp add: c d)
qed

end
